theory Spec2Isabelle
  imports Main "HOL-Library.Sublist"
begin

section \<open>JavaScript preliminaries\<close>

text \<open>
  A thrown exception is a value: every function of the source that can throw returns
  \<open>error + 'a\<close>, with \<open>Inl\<close> for the exception. \<open>TypeError\<close> is what reading a property
  of \<open>undefined\<close> throws; \<open>Rejected\<close> is a rejected promise of an external collaborator.
  A value that may be \<open>undefined\<close> is an \<open>option\<close>, with \<open>None\<close> for \<open>undefined\<close>.
\<close>

datatype error = TypeError | Rejected string

text \<open>
  The built-in \<open>Map\<close>: its entries in insertion order. \<open>Map.prototype.set\<close> replaces the
  value of a key that is present and leaves the entry at its place, and appends the entry
  of a new key; \<open>get\<close> returns \<open>undefined\<close> on a missing key; \<open>values\<close> iterates in the
  order of the entries.
\<close>

fun Map_set :: "('k \<times> 'v) list \<Rightarrow> 'k \<Rightarrow> 'v \<Rightarrow> ('k \<times> 'v) list" where
  "Map_set [] k v = [(k, v)]"
| "Map_set (e # es) k v = (if fst e = k then (k, v) # es else e # Map_set es k v)"

fun Map_get :: "('k \<times> 'v) list \<Rightarrow> 'k \<Rightarrow> 'v option" where
  "Map_get [] k = None"
| "Map_get (e # es) k = (if fst e = k then Some (snd e) else Map_get es k)"

definition Map_values :: "('k \<times> 'v) list \<Rightarrow> 'v list" where
  "Map_values es = map snd es"

section \<open>The provider registry: \<open>ProvidersInfoService\<close>\<close>

text \<open>
  \<open>interface ProviderInfo\<close>. The field \<open>value\<close> of the source is \<open>value'\<close> here.
\<close>

record ProviderInfo =
  name :: string
  value' :: string
  model :: "string option"
  baseDir :: "string option"
  owner :: "string option"

text \<open>
  \<open>Type<any>\<close>: a class (its constructor function). Two classes are the same object or
  not, whatever their names are, so a class is its reference together with its name.
\<close>

datatype Type = Class (ref: nat) (className: string)

text \<open>
  Modelled from the spec: \<open>nameOf\<close> is imported from \<open>@tsed/cli-core\<close> and is not among the
  source files. The registry tags an entry with the owner's stable identity, "a name
  derived from the owning component": the name of the class. Of \<open>undefined\<close> (\<open>add\<close>
  called with no owner) it is taken to be the string "undefined"; no theorem below
  depends on that choice.
\<close>

fun nameOf :: "Type option \<Rightarrow> string" where
  "nameOf None = ''undefined''"
| "nameOf (Some c) = className c"

text \<open>\<open>class ProvidersInfoService\<close>: the field \<open>map\<close> of the source is \<open>map'\<close> here.\<close>

record ProvidersInfoService =
  map' :: "(string \<times> ProviderInfo) list"

text \<open>\<open>readonly map: Map<string, ProviderInfo> = new Map()\<close>\<close>

definition new_ProvidersInfoService :: ProvidersInfoService where
  "new_ProvidersInfoService = \<lparr>map' = []\<rparr>"

definition add :: "ProvidersInfoService \<Rightarrow> ProviderInfo \<Rightarrow> Type option \<Rightarrow> ProvidersInfoService" where
  "add svc providerInfo ownr =
     svc\<lparr>map' := Map_set (map' svc) (value' providerInfo)
                     (providerInfo\<lparr>owner := Some (nameOf ownr)\<rparr>)\<rparr>"

definition get :: "ProvidersInfoService \<Rightarrow> string \<Rightarrow> ProviderInfo option" where
  "get svc v = Map_get (map' svc) v"

definition isMyProvider :: "ProvidersInfoService \<Rightarrow> string \<Rightarrow> Type \<Rightarrow> error + bool" where
  "isMyProvider svc v ownr =
     (case Map_get (map' svc) v of
        None \<Rightarrow> Inl TypeError
      | Some info \<Rightarrow> Inr (owner info = Some (nameOf (Some ownr))))"

definition toArray :: "ProvidersInfoService \<Rightarrow> ProviderInfo list" where
  "toArray svc = Map_values (map' svc)"

text \<open>A sequence of \<open>add\<close> calls, in the order they are made.\<close>

fun adds :: "ProvidersInfoService \<Rightarrow> (ProviderInfo \<times> Type option) list \<Rightarrow> ProvidersInfoService" where
  "adds svc [] = svc"
| "adds svc (r # rs) = adds (add svc (fst r) (snd r)) rs"

text \<open>The object an \<open>add\<close> call stores, and the last call of a sequence for a key.\<close>

definition stored :: "ProviderInfo \<times> Type option \<Rightarrow> ProviderInfo" where
  "stored r = (fst r)\<lparr>owner := Some (nameOf (snd r))\<rparr>"

definition last_add :: "string \<Rightarrow> (ProviderInfo \<times> Type option) list \<Rightarrow> (ProviderInfo \<times> Type option) option" where
  "last_add v rs = find (\<lambda>r. value' (fst r) = v) (rev rs)"

text \<open>
  The two orders a listing of the registry can have, as lists of keys and of stored
  objects. \<open>first_occurrences\<close> keeps each key of a list at the place it first occurs.
  \<open>registration_order\<close> follows the spec's words for \<open>listAll\<close>, "ordered sequence of
  ProviderInfo in registration order": the objects the registry holds (for each key
  the one of the last \<open>add\<close>), each at the place of the call that registered it.
\<close>

primrec first_occurrences :: "'a list \<Rightarrow> 'a list" where
  "first_occurrences [] = []"
| "first_occurrences (k # ks) = k # removeAll k (first_occurrences ks)"

fun registration_order :: "(ProviderInfo \<times> Type option) list \<Rightarrow> ProviderInfo list" where
  "registration_order [] = []"
| "registration_order (r # rs) =
     (if value' (fst r) \<in> set (map (\<lambda>r. value' (fst r)) rs) then registration_order rs
      else stored r # registration_order rs)"

section \<open>The passport plugin: \<open>PassportGenerateHook\<close>\<close>

subsection \<open>Strings\<close>

text \<open>
  A value in a template literal: \<open>undefined\<close> is printed as "undefined".
\<close>

fun str :: "string option \<Rightarrow> string" where
  "str None = ''undefined''"
| "str (Some s) = s"

text \<open>
  \<open>String.prototype.includes\<close> (here \<open>includes'\<close>): the argument occurs as a contiguous part
  of the string. \<open>String.prototype.toLowerCase\<close> is a built-in of the language that folds
  every cased character and need not work character by character; it is not defined
  here but is a parameter \<open>toLowerCase\<close>, any function from strings to strings, of what
  uses it.
\<close>

fun includes' :: "'a list \<Rightarrow> 'a list \<Rightarrow> bool" where
  "includes' [] sub = (sub = [])"
| "includes' (c # cs) sub = (prefix sub (c # cs) \<or> includes' cs sub)"


subsection \<open>The collaborators of the hook\<close>

text \<open>
  An element of the list \<open>PassportClient.getPackages\<close> resolves to (of type \<open>any\<close>), with
  the properties the hook reads: \<open>name\<close> (here \<open>pkg_name\<close>), \<open>description\<close> and
  \<open>"dist-tags"\<close> with its \<open>latest\<close>.
\<close>

record DistTags =
  latest :: "string option"

record Package =
  pkg_name :: string
  description :: "string option"
  dist_tags :: "DistTags option"

text \<open>
  Modelled from the spec: \<open>ProjectPackageJson\<close> is a class of \<open>@tsed/cli-core\<close> that is not
  among the source files. Of the package manifest the hook uses \<open>addDependency(name,
  version)\<close> only; the manifest is the sequence of these calls, the version \<open>undefined\<close>
  when none is known.
\<close>

record ProjectPackageJson =
  dependencies :: "(string \<times> string option) list"

definition addDependency :: "ProjectPackageJson \<Rightarrow> string \<Rightarrow> string option \<Rightarrow> ProjectPackageJson" where
  "addDependency pj pkg version = pj\<lparr>dependencies := dependencies pj @ [(pkg, version)]\<rparr>"

subsection \<open>Contexts, questions and tasks\<close>

text \<open>
  The value of a property of a context: a string, or a value of another kind.
\<close>

datatype 'v JSValue = Str string | Other 'v

text \<open>
  \<open>interface IPassportGenerationOptions extends IGenerateCmdContext\<close>. The declaration of
  \<open>IGenerateCmdContext\<close> is not among the source files; the hook reads its \<open>type\<close>, \<open>name\<close>
  (here \<open>ctx_type\<close>, \<open>ctx_name\<close>) and \<open>symbolPath\<close>, all strings. A context is an open bag of
  keys and values: the properties of a context object that the interfaces do not declare
  are in \<open>rest\<close>, by their names.
\<close>

record 'v IGenerateCmdContext =
  ctx_type :: string
  ctx_name :: string
  symbolPath :: string
  rest :: "string \<rightharpoonup> 'v JSValue"

record 'v IPassportGenerationOptions = "'v IGenerateCmdContext" +
  passportPackage :: string

text \<open>
  The object \<open>mapOptions\<close> returns: the properties of the context and \<open>protocolName\<close>.
\<close>

record 'v MappedOptions = "'v IPassportGenerationOptions" +
  protocolName :: string

text \<open>
  The object \<open>data\<close> of \<open>const {symbolPath, ...data} = this.mapOptions(ctx)\<close>: every property
  of the mapped options but \<open>symbolPath\<close>.
\<close>

record 'v TemplateData =
  data_type :: string
  data_name :: string
  data_passportPackage :: string
  data_protocolName :: string
  data_rest :: "string \<rightharpoonup> 'v JSValue"

text \<open>
  A context and the mapped options as what they are in the source, objects: the value of
  every key. A declared property is the object's property of that name.
\<close>

definition properties :: "'v IPassportGenerationOptions \<Rightarrow> string \<rightharpoonup> 'v JSValue" where
  "properties options =
     (rest options)
       (''type'' \<mapsto> Str (ctx_type options),
        ''name'' \<mapsto> Str (ctx_name options),
        ''symbolPath'' \<mapsto> Str (symbolPath options),
        ''passportPackage'' \<mapsto> Str (passportPackage options))"

definition mapped_properties :: "'v MappedOptions \<Rightarrow> string \<rightharpoonup> 'v JSValue" where
  "mapped_properties mapped =
     (rest mapped)
       (''type'' \<mapsto> Str (ctx_type mapped),
        ''name'' \<mapsto> Str (ctx_name mapped),
        ''symbolPath'' \<mapsto> Str (symbolPath mapped),
        ''passportPackage'' \<mapsto> Str (passportPackage mapped),
        ''protocolName'' \<mapsto> Str (protocolName mapped))"

text \<open>
  The state of a prompt (of type \<open>any\<close>): the answers so far, by their names. A missing
  property reads as \<open>undefined\<close>.
\<close>

type_synonym PromptState = "string \<rightharpoonup> string"

text \<open>An element of the \<open>list\<close> of \<open>onGeneratePrompt\<close>: \<open>{name, value}\<close>.\<close>

record Choice =
  choice_name :: string
  choice_value :: string

text \<open>
  A question (\<open>QuestionOptions\<close> is a list of them). The properties \<open>type\<close>, \<open>name\<close> and
  \<open>when\<close> of the source are \<open>question_type\<close>, \<open>question_name\<close> and \<open>when'\<close>. The \<open>source\<close>
  is asynchronous in the source; it awaits nothing, so it is the function of its result.
  Its keyword is \<open>undefined\<close> before anything is typed.
\<close>

record Question =
  question_type :: string
  question_name :: string
  message :: string
  when' :: "PromptState \<Rightarrow> bool"
  source :: "PromptState \<Rightarrow> string option \<Rightarrow> Choice list"

text \<open>
  The call \<open>srcRenderService.render(template, data, {output, templateDir})\<close> a task makes
  (\<open>output\<close> is \<open>output'\<close> here).
\<close>

record 'v RenderCall =
  template :: string
  data :: "'v TemplateData"
  output' :: string
  templateDir :: string

text \<open>
  A task: its title and its action. The action runs later, when the task runner calls
  it; it reads \<open>srcRenderService.templateExists\<close> (a function of the template and the
  template directory) at that moment, and makes one render call.
\<close>

record 'v Task =
  title :: string
  task :: "(string \<Rightarrow> string \<Rightarrow> bool) \<Rightarrow> 'v RenderCall"

text \<open>
  Modelled from the spec: the form that renders a list of questions is in
  \<open>@tsed/cli-core\<close> and the prompt library, not among the source files. A question is part
  of the form when its \<open>when\<close> holds of the state ("skip if false").
\<close>

definition rendered_form :: "Question list \<Rightarrow> PromptState \<Rightarrow> Question list" where
  "rendered_form questions state = filter (\<lambda>q. when' q state) questions"

subsection \<open>The hook\<close>

text \<open>
  The class \<open>PassportGenerateHook\<close> as a value (what the constructor passes to \<open>add\<close> and
  \<open>onGenerateExec\<close> to \<open>isMyProvider\<close>), and the state of an instance: the registry it was
  given, the package manifest, and the field \<open>packages\<close>, \<open>undefined\<close> until it is assigned.
\<close>

definition PassportGenerateHook :: Type where
  "PassportGenerateHook = Class 0 ''PassportGenerateHook''"

record PassportGenerateHook =
  providersInfoService :: ProvidersInfoService
  projectPackageJson :: ProjectPackageJson
  packages :: "Package list option"

definition new_PassportGenerateHook :: "ProvidersInfoService \<Rightarrow> ProjectPackageJson \<Rightarrow> PassportGenerateHook" where
  "new_PassportGenerateHook svc pj =
     \<lparr>providersInfoService =
        add svc \<lparr>name = ''Protocol'', value' = ''protocol'', model = None, baseDir = None, owner = None\<rparr>
          (Some PassportGenerateHook),
      projectPackageJson = pj,
      packages = None\<rparr>"

text \<open>
  \<open>onGeneratePrompt\<close>. \<open>getPackages\<close> is the outcome of
  \<open>await this.passportClient.getPackages()\<close>: the list, or the rejection, which the
  \<open>await\<close> throws before \<open>this.packages\<close> is assigned. \<open>toLowerCase\<close> is the built-in.
\<close>

definition onGeneratePrompt ::
  "(string \<Rightarrow> string) \<Rightarrow> PassportGenerateHook \<Rightarrow> error + Package list \<Rightarrow> 'c \<Rightarrow>
     error + PassportGenerateHook \<times> Question list" where
  "onGeneratePrompt toLowerCase hook getPackages initialOption =
     (case getPackages of
        Inl e \<Rightarrow> Inl e
      | Inr pkgs \<Rightarrow>
          (let hook' = hook\<lparr>packages := Some pkgs\<rparr>;
               list = map (\<lambda>item. \<lparr>choice_name = pkg_name item @ '' - '' @ str (description item),
                                    choice_value = pkg_name item\<rparr>) pkgs
           in Inr (hook',
                [\<lparr>question_type = ''autocomplete'',
                  question_name = ''passportPackage'',
                  message = ''Which passport package ?'',
                  when' = (\<lambda>state. state ''type'' \<in> set [Some ''protocol'']),
                  source = (\<lambda>state keyword.
                     case keyword of
                       None \<Rightarrow> list
                     | Some k \<Rightarrow>
                         if k \<noteq> []
                         then filter (\<lambda>item. includes' (toLowerCase (choice_name item)) (toLowerCase k)) list
                         else list)\<rparr>])))"

text \<open>
  \<open>mapOptions\<close>: the spread copies every property of the options, and the properties
  \<open>protocolName\<close> and \<open>passportPackage\<close> written after it replace the ones of these names:
  a \<open>protocolName\<close> that the options already have among the undeclared properties is not
  a property of the result. \<open>paramCase\<close> (of the package \<open>change-case\<close>) is a parameter.
\<close>

definition mapOptions :: "(string \<Rightarrow> string) \<Rightarrow> 'v IPassportGenerationOptions \<Rightarrow> 'v MappedOptions" where
  "mapOptions paramCase options =
     \<lparr>ctx_type = ctx_type options,
      ctx_name = ctx_name options,
      symbolPath = symbolPath options,
      rest = (rest options)(''protocolName'' := None),
      passportPackage = passportPackage options,
      protocolName = paramCase (ctx_name options)\<rparr>"

text \<open>
  \<open>getTemplate\<close>: \<open>templateExists\<close> is \<open>srcRenderService.templateExists\<close>, and \<open>TEMPLATE_DIR\<close>
  the constant of \<open>utils/templateDir\<close>, which is not among the source files.
\<close>

definition getTemplate :: "(string \<Rightarrow> string \<Rightarrow> bool) \<Rightarrow> string \<Rightarrow> string \<Rightarrow> string" where
  "getTemplate templateExists TEMPLATE_DIR passportPackage' =
     (let template' = passportPackage' @ ''.protocol.hbs''
      in if templateExists template' TEMPLATE_DIR then template' else ''generic.protocol.hbs'')"

text \<open>
  \<open>getPassportPackageVersion\<close>: \<open>this.packages.find\<close> throws when \<open>this.packages\<close> is
  \<open>undefined\<close>; \<open>find\<close> returns the first element of that name.
\<close>

definition getPassportPackageVersion :: "PassportGenerateHook \<Rightarrow> string \<Rightarrow> error + string option" where
  "getPassportPackageVersion hook passportPackage' =
     (case packages hook of
        None \<Rightarrow> Inl TypeError
      | Some pkgs \<Rightarrow>
          (let passportPkgDetails = find (\<lambda>pkg. pkg_name pkg = passportPackage') pkgs
           in Inr (case passportPkgDetails of
                     None \<Rightarrow> None
                   | Some details \<Rightarrow>
                       (case dist_tags details of None \<Rightarrow> None | Some tags \<Rightarrow> latest tags))))"

text \<open>
  \<open>onGenerateExec\<close> returns the tasks and the hook with its manifest updated. The
  arguments of \<open>addDependency\<close> are evaluated before the call, so an exception of
  \<open>getPassportPackageVersion\<close> leaves the manifest as it was.
\<close>

definition onGenerateExec ::
  "(string \<Rightarrow> string) \<Rightarrow> string \<Rightarrow> PassportGenerateHook \<Rightarrow> 'v IPassportGenerationOptions \<Rightarrow>
     error + PassportGenerateHook \<times> 'v Task list" where
  "onGenerateExec paramCase TEMPLATE_DIR hook ctx =
     (case isMyProvider (providersInfoService hook) (ctx_type ctx) PassportGenerateHook of
        Inl e \<Rightarrow> Inl e
      | Inr mine \<Rightarrow>
          if mine then
            (let mapped = mapOptions paramCase ctx;
                 symbolPath' = symbolPath mapped;
                 data' = \<lparr>data_type = ctx_type mapped,
                          data_name = ctx_name mapped,
                          data_passportPackage = passportPackage mapped,
                          data_protocolName = protocolName mapped,
                          data_rest = (rest mapped)(''symbolPath'' := None)\<rparr>;
                 passportPackage' = passportPackage ctx
             in case getPassportPackageVersion hook passportPackage' of
                  Inl e \<Rightarrow> Inl e
                | Inr version \<Rightarrow>
                    Inr (hook\<lparr>projectPackageJson :=
                               addDependency (projectPackageJson hook) (passportPackage ctx) version\<rparr>,
                         [\<lparr>title = ''Generate '' @ ctx_type ctx @ '' file to '' @ [CHR 0x27]
                                    @ symbolPath' @ ''.ts'' @ [CHR 0x27],
                           task = (\<lambda>templateExists.
                              \<lparr>template = getTemplate templateExists TEMPLATE_DIR passportPackage',
                               data = data',
                               output' = symbolPath' @ ''.ts'',
                               templateDir = TEMPLATE_DIR\<rparr>)\<rparr>]))
          else Inr (hook, []))"

section \<open>The registry: lemmas\<close>

lemma Map_get_Map_set:
  "Map_get (Map_set es k v) k' = (if k' = k then Some v else Map_get es k')"
  by (induction es) auto

lemma Map_get_None_iff: "Map_get es k = None \<longleftrightarrow> k \<notin> fst ` set es"
  by (induction es) auto

lemma keys_Map_set:
  "map fst (Map_set es k v) = (if k \<in> fst ` set es then map fst es else map fst es @ [k])"
  by (induction es) auto

lemma distinct_Map_set:
  "distinct (map fst es) \<Longrightarrow> distinct (map fst (Map_set es k v))"
  by (simp add: keys_Map_set)

lemma get_add:
  "get (add svc i ownr) v = (if v = value' i then Some (stored (i, ownr)) else get svc v)"
  by (simp add: get_def add_def stored_def Map_get_Map_set)

lemma find_app:
  "find P (xs @ ys) = (case find P xs of None \<Rightarrow> find P ys | Some x \<Rightarrow> Some x)"
  by (induction xs) auto

lemma last_add_Cons:
  "last_add v (r # rs) =
     (case last_add v rs of None \<Rightarrow> (if value' (fst r) = v then Some r else None) | Some r' \<Rightarrow> Some r')"
  by (simp add: last_add_def find_app split: option.splits)

lemma get_adds:
  "get (adds svc rs) v = (case last_add v rs of None \<Rightarrow> get svc v | Some r \<Rightarrow> Some (stored r))"
proof (induction rs arbitrary: svc)
  case Nil
  show ?case by (simp add: last_add_def)
next
  case (Cons r rs)
  show ?case
    by (simp add: Cons.IH last_add_Cons get_add split: option.splits)
qed

lemma last_add_None_iff: "last_add v rs = None \<longleftrightarrow> v \<notin> set (map (\<lambda>r. value' (fst r)) rs)"
  by (force simp: last_add_def find_None_iff)

lemma distinct_adds:
  "distinct (map fst (map' svc)) \<Longrightarrow> distinct (map fst (map' (adds svc rs)))"
  by (induction rs arbitrary: svc) (simp_all add: add_def distinct_Map_set)

lemma isMyProvider_get:
  "isMyProvider svc v ownr =
     (case get svc v of None \<Rightarrow> Inl TypeError
      | Some info \<Rightarrow> Inr (owner info = Some (nameOf (Some ownr))))"
  by (simp add: isMyProvider_def get_def)

lemma get_adds_new:
  "get (adds new_ProvidersInfoService rs) v = map_option stored (last_add v rs)"
proof -
  have "get new_ProvidersInfoService v = None"
    by (simp add: get_def new_ProvidersInfoService_def)
  then show ?thesis by (simp add: get_adds split: option.splits)
qed

lemma isMyProvider_adds:
  "isMyProvider (adds new_ProvidersInfoService rs) v ownr =
     (case last_add v rs of None \<Rightarrow> Inl TypeError
      | Some r \<Rightarrow> Inr (nameOf (snd r) = nameOf (Some ownr)))"
  by (simp add: isMyProvider_get get_adds_new stored_def split: option.splits)

lemma keys_adds:
  "distinct (map fst (map' svc)) \<Longrightarrow>
   map fst (map' (adds svc rs)) =
     map fst (map' svc) @
     filter (\<lambda>k. k \<notin> fst ` set (map' svc)) (first_occurrences (map (\<lambda>r. value' (fst r)) rs))"
proof (induction rs arbitrary: svc)
  case Nil
  show ?case by simp
next
  case (Cons r rs)
  let ?svc = "add svc (fst r) (snd r)"
  have d: "distinct (map fst (map' ?svc))"
    using Cons.prems by (simp add: add_def distinct_Map_set)
  have k: "map fst (map' ?svc) =
      (if value' (fst r) \<in> fst ` set (map' svc) then map fst (map' svc)
       else map fst (map' svc) @ [value' (fst r)])"
    by (simp add: add_def keys_Map_set)
  have s: "fst ` set (map' ?svc) = insert (value' (fst r)) (fst ` set (map' svc))"
    using arg_cong [OF k, of set] by (auto simp del: set_map simp add: set_map [symmetric])
  show ?case
    apply (simp only: adds.simps Cons.IH [OF d] s)
    apply (simp add: k removeAll_filter_not_eq filter_id_conv)
    apply (auto intro!: filter_cong)
    done
qed

lemma values_by_keys:
  "distinct (map fst es) \<Longrightarrow> map Some (map snd es) = map (Map_get es) (map fst es)"
  by (induction es) (auto simp: rev_image_eqI)

lemma first_occurrences_distinct: "distinct ks \<Longrightarrow> first_occurrences ks = ks"
  by (induction ks) auto

lemma last_add_distinct:
  "distinct (map (\<lambda>r. value' (fst r)) rs) \<Longrightarrow> r \<in> set rs \<Longrightarrow> last_add (value' (fst r)) rs = Some r"
proof (induction rs)
  case Nil
  then show ?case by simp
next
  case (Cons a rs)
  show ?case
  proof (cases "r \<in> set rs")
    case True
    with Cons show ?thesis by (simp add: last_add_Cons)
  next
    case False
    with Cons.prems have ra: "r = a" by simp
    from Cons.prems have "value' (fst a) \<notin> set (map (\<lambda>r. value' (fst r)) rs)" by simp
    then have "last_add (value' (fst a)) rs = None" by (simp add: last_add_None_iff)
    then show ?thesis by (simp add: last_add_Cons ra)
  qed
qed

lemma toArray_adds:
  "map Some (toArray (adds new_ProvidersInfoService rs)) =
     map (\<lambda>v. map_option stored (last_add v rs)) (first_occurrences (map (\<lambda>r. value' (fst r)) rs))"
proof -
  let ?svc = "adds new_ProvidersInfoService rs"
  have d0: "distinct (map fst (map' new_ProvidersInfoService))"
    by (simp add: new_ProvidersInfoService_def)
  have d: "distinct (map fst (map' ?svc))"
    using d0 by (rule distinct_adds)
  have k: "map fst (map' ?svc) = first_occurrences (map (\<lambda>r. value' (fst r)) rs)"
    using keys_adds [OF d0, of rs] by (simp add: new_ProvidersInfoService_def)
  have "map Some (toArray ?svc) = map (get ?svc) (map fst (map' ?svc))"
    using values_by_keys [OF d] by (simp add: toArray_def Map_values_def get_def [abs_def])
  also have "\<dots> = map (get ?svc) (first_occurrences (map (\<lambda>r. value' (fst r)) rs))"
    by (simp only: k)
  finally show ?thesis by (simp add: get_adds_new [abs_def])
qed

section \<open>The registry: lookup\<close>

text \<open>
  C1. After any sequence of \<open>add\<close> calls on a new registry, \<open>get v\<close> is the object stored by
  the last \<open>add\<close> whose info has the value \<open>v\<close>: that info with \<open>owner\<close> set to the name of
  the owner given to that call. It is \<open>undefined\<close> exactly when no call had the value \<open>v\<close>,
  and no two entries of the map have the same key.
\<close>

theorem get_last_add:
  "get (adds new_ProvidersInfoService rs) v =
     (case last_add v rs of
        None \<Rightarrow> None
      | Some r \<Rightarrow> Some ((fst r)\<lparr>owner := Some (nameOf (snd r))\<rparr>))
   \<and> (get (adds new_ProvidersInfoService rs) v = None) = (v \<notin> set (map (\<lambda>r. value' (fst r)) rs))
   \<and> distinct (map fst (map' (adds new_ProvidersInfoService rs)))"
proof -
  have g: "get (adds new_ProvidersInfoService rs) v =
      (case last_add v rs of None \<Rightarrow> None | Some r \<Rightarrow> Some (stored r))"
  proof -
    have "get new_ProvidersInfoService v = None"
      by (simp add: get_def new_ProvidersInfoService_def)
    then show ?thesis by (simp add: get_adds split: option.splits)
  qed
  have d: "distinct (map fst (map' (adds new_ProvidersInfoService rs)))"
    by (rule distinct_adds) (simp add: new_ProvidersInfoService_def)
  have n: "(get (adds new_ProvidersInfoService rs) v = None) = (v \<notin> set (map (\<lambda>r. value' (fst r)) rs))"
    unfolding g using last_add_None_iff [of v rs] by (cases "last_add v rs") auto
  have s: "(case last_add v rs of None \<Rightarrow> None | Some r \<Rightarrow> Some (stored r)) =
      (case last_add v rs of None \<Rightarrow> None | Some r \<Rightarrow> Some ((fst r)\<lparr>owner := Some (nameOf (snd r))\<rparr>))"
    by (simp add: stored_def split: option.splits)
  from g s have "get (adds new_ProvidersInfoService rs) v =
      (case last_add v rs of None \<Rightarrow> None | Some r \<Rightarrow> Some ((fst r)\<lparr>owner := Some (nameOf (snd r))\<rparr>))"
    by (rule trans)
  with d n show ?thesis by blast
qed

section \<open>The registry: ownership\<close>

text \<open>
  C2 (as amended). When the value \<open>v\<close> has been registered, \<open>isMyProvider v ownr\<close> returns
  true exactly when the owner of the most recent \<open>add\<close> for \<open>v\<close> has the same name as
  \<open>ownr\<close>: the registry keeps the name of the owner, not the owner. So it is true for the
  owner that made that \<open>add\<close>, and false for every owner of another name.
\<close>

theorem isMyProvider_last_owner_name:
  "last_add v rs = Some r \<Longrightarrow>
     isMyProvider (adds new_ProvidersInfoService rs) v ownr = Inr (nameOf (snd r) = nameOf (Some ownr))
     \<and> (snd r = Some ownr \<longrightarrow> isMyProvider (adds new_ProvidersInfoService rs) v ownr = Inr True)
     \<and> (nameOf (snd r) \<noteq> nameOf (Some ownr) \<longrightarrow>
          isMyProvider (adds new_ProvidersInfoService rs) v ownr = Inr False)"
  by (simp add: isMyProvider_adds)

text \<open>
  The scenario of the spec: "protocol" registered by \<open>HookA\<close> is owned by \<open>HookA\<close> and not by
  \<open>HookB\<close>.
\<close>

theorem isMyProvider_last_owner_name_witness:
  "last_add ''protocol''
      [(\<lparr>name = ''Protocol'', value' = ''protocol'', model = None, baseDir = None, owner = None\<rparr>,
        Some (Class 1 ''HookA''))]
    = Some (\<lparr>name = ''Protocol'', value' = ''protocol'', model = None, baseDir = None, owner = None\<rparr>,
        Some (Class 1 ''HookA''))
   \<and> isMyProvider (adds new_ProvidersInfoService
      [(\<lparr>name = ''Protocol'', value' = ''protocol'', model = None, baseDir = None, owner = None\<rparr>,
        Some (Class 1 ''HookA''))]) ''protocol'' (Class 1 ''HookA'') = Inr True
   \<and> isMyProvider (adds new_ProvidersInfoService
      [(\<lparr>name = ''Protocol'', value' = ''protocol'', model = None, baseDir = None, owner = None\<rparr>,
        Some (Class 1 ''HookA''))]) ''protocol'' (Class 2 ''HookB'') = Inr False"
proof -
  let ?r = "(\<lparr>name = ''Protocol'', value' = ''protocol'', model = None, baseDir = None, owner = None\<rparr>,
        Some (Class 1 ''HookA''))"
  have l: "last_add ''protocol'' [?r] = Some ?r"
    by (simp add: last_add_def)
  show ?thesis
    using l isMyProvider_last_owner_name [OF l, of "Class 1 ''HookA''"]
      isMyProvider_last_owner_name [OF l, of "Class 2 ''HookB''"]
    by simp
qed

text \<open>
  The claim as it is stated fails for two classes of the same name: "protocol" is
  registered by one class named \<open>GenerateHook\<close>, and \<open>isMyProvider\<close> returns true for
  another class of that name.
\<close>

theorem isMyProvider_other_owner_counterexample:
  "last_add ''protocol''
      [(\<lparr>name = ''Protocol'', value' = ''protocol'', model = None, baseDir = None, owner = None\<rparr>,
        Some (Class 1 ''GenerateHook''))]
    = Some (\<lparr>name = ''Protocol'', value' = ''protocol'', model = None, baseDir = None, owner = None\<rparr>,
        Some (Class 1 ''GenerateHook''))
   \<and> Some (Class 1 ''GenerateHook'') \<noteq> Some (Class 2 ''GenerateHook'')
   \<and> isMyProvider (adds new_ProvidersInfoService
      [(\<lparr>name = ''Protocol'', value' = ''protocol'', model = None, baseDir = None, owner = None\<rparr>,
        Some (Class 1 ''GenerateHook''))]) ''protocol'' (Class 2 ''GenerateHook'') = Inr True"
  by (simp add: last_add_def isMyProvider_def new_ProvidersInfoService_def add_def)

text \<open>
  C3. For a value that no \<open>add\<close> has registered, \<open>isMyProvider\<close> does not return false: it
  reads \<open>owner\<close> of the missing entry and throws a \<open>TypeError\<close>, whatever the owner.
\<close>

theorem isMyProvider_unregistered:
  "v \<notin> set (map (\<lambda>r. value' (fst r)) rs) \<Longrightarrow>
     isMyProvider (adds new_ProvidersInfoService rs) v ownr = Inl TypeError"
  using last_add_None_iff [of v rs] by (simp add: isMyProvider_adds)

theorem isMyProvider_unregistered_witness:
  "''controller'' \<notin> set (map (\<lambda>r. value' (fst r))
      [(\<lparr>name = ''Protocol'', value' = ''protocol'', model = None, baseDir = None, owner = None\<rparr>,
        Some (Class 1 ''PassportGenerateHook''))])
   \<and> isMyProvider (adds new_ProvidersInfoService
      [(\<lparr>name = ''Protocol'', value' = ''protocol'', model = None, baseDir = None, owner = None\<rparr>,
        Some (Class 1 ''PassportGenerateHook''))]) ''controller'' (Class 1 ''PassportGenerateHook'')
     = Inl TypeError
   \<and> isMyProvider new_ProvidersInfoService ''protocol'' (Class 1 ''PassportGenerateHook'') = Inl TypeError"
  using isMyProvider_unregistered
      [of "''controller''"
        "[(\<lparr>name = ''Protocol'', value' = ''protocol'', model = None, baseDir = None, owner = None\<rparr>,
          Some (Class 1 ''PassportGenerateHook''))]" "Class 1 ''PassportGenerateHook''"]
    isMyProvider_unregistered [of "''protocol''" "[]" "Class 1 ''PassportGenerateHook''"]
  by simp

section \<open>The registry: listing\<close>

text \<open>
  C4 (as amended). After any sequence of \<open>add\<close> calls, \<open>toArray\<close> has one entry for each
  distinct value, in the order in which the values were first registered; the entry of a
  value is the object of the last \<open>add\<close> for it. An \<open>add\<close> that overwrites an earlier
  registration leaves the entry at the place of the earlier one. When no value is
  registered twice, \<open>toArray\<close> is the stored objects in the order of the calls.
\<close>

theorem toArray_first_registration_order:
  "map Some (toArray (adds new_ProvidersInfoService rs)) =
     map (\<lambda>v. map_option (\<lambda>r. (fst r)\<lparr>owner := Some (nameOf (snd r))\<rparr>) (last_add v rs))
       (first_occurrences (map (\<lambda>r. value' (fst r)) rs))
   \<and> (distinct (map (\<lambda>r. value' (fst r)) rs) \<longrightarrow>
        toArray (adds new_ProvidersInfoService rs) =
          map (\<lambda>r. (fst r)\<lparr>owner := Some (nameOf (snd r))\<rparr>) rs)"
proof (intro conjI impI)
  show "map Some (toArray (adds new_ProvidersInfoService rs)) =
     map (\<lambda>v. map_option (\<lambda>r. (fst r)\<lparr>owner := Some (nameOf (snd r))\<rparr>) (last_add v rs))
       (first_occurrences (map (\<lambda>r. value' (fst r)) rs))"
    using toArray_adds [of rs] by (simp add: stored_def [abs_def])
next
  assume d: "distinct (map (\<lambda>r. value' (fst r)) rs)"
  have "map Some (toArray (adds new_ProvidersInfoService rs)) =
      map (\<lambda>v. map_option stored (last_add v rs)) (map (\<lambda>r. value' (fst r)) rs)"
    by (simp only: toArray_adds first_occurrences_distinct [OF d])
  also have "\<dots> = map Some (map stored rs)"
    using last_add_distinct [OF d] by simp
  finally have e: "map Some (toArray (adds new_ProvidersInfoService rs)) = map Some (map stored rs)" .
  have "toArray (adds new_ProvidersInfoService rs) = map stored rs"
    by (rule map_injective [OF e]) simp
  then show "toArray (adds new_ProvidersInfoService rs) =
      map (\<lambda>r. (fst r)\<lparr>owner := Some (nameOf (snd r))\<rparr>) rs"
    by (simp add: stored_def [abs_def])
qed

theorem toArray_first_registration_order_witness:
  "distinct (map (\<lambda>r. value' (fst r))
      [(\<lparr>name = ''Protocol'', value' = ''protocol'', model = None, baseDir = None, owner = None\<rparr>,
          Some (Class 1 ''PassportGenerateHook'')),
       (\<lparr>name = ''Controller'', value' = ''controller'', model = None, baseDir = None, owner = None\<rparr>,
          Some (Class 2 ''ControllerHook''))])
   \<and> toArray (adds new_ProvidersInfoService
      [(\<lparr>name = ''Protocol'', value' = ''protocol'', model = None, baseDir = None, owner = None\<rparr>,
          Some (Class 1 ''PassportGenerateHook'')),
       (\<lparr>name = ''Controller'', value' = ''controller'', model = None, baseDir = None, owner = None\<rparr>,
          Some (Class 2 ''ControllerHook''))]) =
      [\<lparr>name = ''Protocol'', value' = ''protocol'', model = None, baseDir = None,
          owner = Some ''PassportGenerateHook''\<rparr>,
       \<lparr>name = ''Controller'', value' = ''controller'', model = None, baseDir = None,
          owner = Some ''ControllerHook''\<rparr>]"
  using toArray_first_registration_order
    [of "[(\<lparr>name = ''Protocol'', value' = ''protocol'', model = None, baseDir = None, owner = None\<rparr>,
          Some (Class 1 ''PassportGenerateHook'')),
       (\<lparr>name = ''Controller'', value' = ''controller'', model = None, baseDir = None, owner = None\<rparr>,
          Some (Class 2 ''ControllerHook''))]"]
  by simp

text \<open>
  The claim as it is stated fails when a value is registered again: after the calls for
  "a", "b" and "a" again, the object of the third call is the first element of \<open>toArray\<close>,
  before the object of the second call; in registration order it is the last.
\<close>

theorem toArray_registration_order_counterexample:
  "toArray (adds new_ProvidersInfoService
      [(\<lparr>name = ''A'', value' = ''a'', model = None, baseDir = None, owner = None\<rparr>, Some (Class 1 ''HookA'')),
       (\<lparr>name = ''B'', value' = ''b'', model = None, baseDir = None, owner = None\<rparr>, Some (Class 2 ''HookB'')),
       (\<lparr>name = ''A2'', value' = ''a'', model = None, baseDir = None, owner = None\<rparr>, Some (Class 3 ''HookC''))])
   = [\<lparr>name = ''A2'', value' = ''a'', model = None, baseDir = None, owner = Some ''HookC''\<rparr>,
      \<lparr>name = ''B'', value' = ''b'', model = None, baseDir = None, owner = Some ''HookB''\<rparr>]
   \<and> registration_order
      [(\<lparr>name = ''A'', value' = ''a'', model = None, baseDir = None, owner = None\<rparr>, Some (Class 1 ''HookA'')),
       (\<lparr>name = ''B'', value' = ''b'', model = None, baseDir = None, owner = None\<rparr>, Some (Class 2 ''HookB'')),
       (\<lparr>name = ''A2'', value' = ''a'', model = None, baseDir = None, owner = None\<rparr>, Some (Class 3 ''HookC''))]
   = [\<lparr>name = ''B'', value' = ''b'', model = None, baseDir = None, owner = Some ''HookB''\<rparr>,
      \<lparr>name = ''A2'', value' = ''a'', model = None, baseDir = None, owner = Some ''HookC''\<rparr>]
   \<and> toArray (adds new_ProvidersInfoService
      [(\<lparr>name = ''A'', value' = ''a'', model = None, baseDir = None, owner = None\<rparr>, Some (Class 1 ''HookA'')),
       (\<lparr>name = ''B'', value' = ''b'', model = None, baseDir = None, owner = None\<rparr>, Some (Class 2 ''HookB'')),
       (\<lparr>name = ''A2'', value' = ''a'', model = None, baseDir = None, owner = None\<rparr>, Some (Class 3 ''HookC''))])
   \<noteq> registration_order
      [(\<lparr>name = ''A'', value' = ''a'', model = None, baseDir = None, owner = None\<rparr>, Some (Class 1 ''HookA'')),
       (\<lparr>name = ''B'', value' = ''b'', model = None, baseDir = None, owner = None\<rparr>, Some (Class 2 ''HookB'')),
       (\<lparr>name = ''A2'', value' = ''a'', model = None, baseDir = None, owner = None\<rparr>, Some (Class 3 ''HookC''))]"
  by (simp add: toArray_def Map_values_def new_ProvidersInfoService_def add_def stored_def)

section \<open>The hook: lemmas\<close>



lemma onGenerateExec_not_mine:
  "isMyProvider (providersInfoService hook) (ctx_type ctx) PassportGenerateHook = Inr False \<Longrightarrow>
   onGenerateExec paramCase TEMPLATE_DIR hook ctx = Inr (hook, [])"
  by (simp add: onGenerateExec_def)

lemma onGenerateExec_mine:
  "isMyProvider (providersInfoService hook) (ctx_type ctx) PassportGenerateHook = Inr True \<Longrightarrow>
   onGenerateExec paramCase TEMPLATE_DIR hook ctx =
     (case getPassportPackageVersion hook (passportPackage ctx) of
        Inl e \<Rightarrow> Inl e
      | Inr version \<Rightarrow>
          Inr (hook\<lparr>projectPackageJson :=
                     addDependency (projectPackageJson hook) (passportPackage ctx) version\<rparr>,
               [\<lparr>title = ''Generate '' @ ctx_type ctx @ '' file to '' @ [CHR 0x27]
                          @ symbolPath ctx @ ''.ts'' @ [CHR 0x27],
                 task = (\<lambda>templateExists.
                    \<lparr>template = getTemplate templateExists TEMPLATE_DIR (passportPackage ctx),
                     data = \<lparr>data_type = ctx_type ctx,
                             data_name = ctx_name ctx,
                             data_passportPackage = passportPackage ctx,
                             data_protocolName = paramCase (ctx_name ctx),
                             data_rest = (rest ctx)(''protocolName'' := None, ''symbolPath'' := None)\<rparr>,
                     output' = symbolPath ctx @ ''.ts'',
                     templateDir = TEMPLATE_DIR\<rparr>)\<rparr>]))"
  by (simp add: onGenerateExec_def mapOptions_def Let_def split: sum.splits)

lemma getPassportPackageVersion_Some:
  "packages hook = Some pkgs \<Longrightarrow>
   getPassportPackageVersion hook p =
     Inr (case find (\<lambda>pkg. pkg_name pkg = p) pkgs of
            None \<Rightarrow> None
          | Some details \<Rightarrow> (case dist_tags details of None \<Rightarrow> None | Some tags \<Rightarrow> latest tags))"
  by (simp add: getPassportPackageVersion_def)

lemma getPassportPackageVersion_None:
  "packages hook = None \<Longrightarrow> getPassportPackageVersion hook p = Inl TypeError"
  by (simp add: getPassportPackageVersion_def)

lemma find_None_names: "p \<notin> set (map pkg_name pkgs) \<Longrightarrow> find (\<lambda>pkg. pkg_name pkg = p) pkgs = None"
  by (auto simp: find_None_iff)

section \<open>The hook: dispatch by ownership\<close>

text \<open>
  C5 (as amended). When the type of the context is registered and the owner the registry
  holds for it is not the name of \<open>PassportGenerateHook\<close>, \<open>onGenerateExec\<close> returns the
  empty task list and leaves the hook, its registry and its manifest as they were: no
  \<open>addDependency\<close>. When that owner is the name of \<open>PassportGenerateHook\<close> and the prompt
  phase has assigned \<open>packages\<close>, it returns exactly one task and adds the passport package
  to the manifest, with the version found in \<open>packages\<close>.
\<close>

theorem onGenerateExec_dispatch:
  "get (providersInfoService hook) (ctx_type ctx) = Some info \<Longrightarrow>
     (owner info \<noteq> Some (className PassportGenerateHook) \<longrightarrow>
        onGenerateExec paramCase TEMPLATE_DIR hook ctx = Inr (hook, []))
     \<and> (owner info = Some (className PassportGenerateHook) \<longrightarrow> packages hook = Some pkgs \<longrightarrow>
          (\<exists>t. onGenerateExec paramCase TEMPLATE_DIR hook ctx =
             Inr (hook\<lparr>projectPackageJson :=
                    addDependency (projectPackageJson hook) (passportPackage ctx)
                      (case find (\<lambda>pkg. pkg_name pkg = passportPackage ctx) pkgs of
                         None \<Rightarrow> None
                       | Some details \<Rightarrow>
                           (case dist_tags details of None \<Rightarrow> None | Some tags \<Rightarrow> latest tags))\<rparr>,
                  [t])))"
proof (intro conjI impI)
  assume g: "get (providersInfoService hook) (ctx_type ctx) = Some info"
    and o: "owner info \<noteq> Some (className PassportGenerateHook)"
  from g o have "isMyProvider (providersInfoService hook) (ctx_type ctx) PassportGenerateHook = Inr False"
    by (simp add: isMyProvider_get)
  then show "onGenerateExec paramCase TEMPLATE_DIR hook ctx = Inr (hook, [])"
    by (rule onGenerateExec_not_mine)
next
  assume g: "get (providersInfoService hook) (ctx_type ctx) = Some info"
    and o: "owner info = Some (className PassportGenerateHook)"
    and p: "packages hook = Some pkgs"
  from g o have "isMyProvider (providersInfoService hook) (ctx_type ctx) PassportGenerateHook = Inr True"
    by (simp add: isMyProvider_get)
  then show "\<exists>t. onGenerateExec paramCase TEMPLATE_DIR hook ctx =
             Inr (hook\<lparr>projectPackageJson :=
                    addDependency (projectPackageJson hook) (passportPackage ctx)
                      (case find (\<lambda>pkg. pkg_name pkg = passportPackage ctx) pkgs of
                         None \<Rightarrow> None
                       | Some details \<Rightarrow>
                           (case dist_tags details of None \<Rightarrow> None | Some tags \<Rightarrow> latest tags))\<rparr>,
                  [t])"
    by (simp add: onGenerateExec_mine getPassportPackageVersion_Some [OF p])
qed

text \<open>
  The scenario of the spec, with a second hook owning "controller": a "controller"
  context gives no task and no dependency, a "protocol" context one task and the
  dependency \<open>passport-jwt\<close> at its latest version. \<open>paramCase\<close> is a parameter; the
  concrete examples take for it the function that maps "Jwt" to "jwt" and leaves every
  other string as it is, which is what \<open>paramCase\<close> does to the names of the examples.
\<close>

theorem onGenerateExec_dispatch_witness:
  "onGenerateExec (\<lambda>s. if s = ''Jwt'' then ''jwt'' else s) ''templates''
      \<lparr>providersInfoService = adds new_ProvidersInfoService
         [(\<lparr>name = ''Controller'', value' = ''controller'', model = None, baseDir = None, owner = None\<rparr>,
             Some (Class 1 ''ControllerHook'')),
          (\<lparr>name = ''Protocol'', value' = ''protocol'', model = None, baseDir = None, owner = None\<rparr>,
             Some PassportGenerateHook)],
       projectPackageJson = \<lparr>dependencies = []\<rparr>,
       packages = Some [\<lparr>pkg_name = ''passport-jwt'', description = Some ''JWT'',
                         dist_tags = Some \<lparr>latest = Some ''4.0.0''\<rparr>\<rparr>]\<rparr>
      \<lparr>ctx_type = ''controller'', ctx_name = ''Jwt'', symbolPath = ''controllers/Jwt'', rest = Map.empty,
       passportPackage = ''passport-jwt''\<rparr>
    = Inr (\<lparr>providersInfoService = adds new_ProvidersInfoService
         [(\<lparr>name = ''Controller'', value' = ''controller'', model = None, baseDir = None, owner = None\<rparr>,
             Some (Class 1 ''ControllerHook'')),
          (\<lparr>name = ''Protocol'', value' = ''protocol'', model = None, baseDir = None, owner = None\<rparr>,
             Some PassportGenerateHook)],
       projectPackageJson = \<lparr>dependencies = []\<rparr>,
       packages = Some [\<lparr>pkg_name = ''passport-jwt'', description = Some ''JWT'',
                         dist_tags = Some \<lparr>latest = Some ''4.0.0''\<rparr>\<rparr>]\<rparr>, [])
   \<and> (\<exists>t. onGenerateExec (\<lambda>s. if s = ''Jwt'' then ''jwt'' else s) ''templates''
      \<lparr>providersInfoService = adds new_ProvidersInfoService
         [(\<lparr>name = ''Controller'', value' = ''controller'', model = None, baseDir = None, owner = None\<rparr>,
             Some (Class 1 ''ControllerHook'')),
          (\<lparr>name = ''Protocol'', value' = ''protocol'', model = None, baseDir = None, owner = None\<rparr>,
             Some PassportGenerateHook)],
       projectPackageJson = \<lparr>dependencies = []\<rparr>,
       packages = Some [\<lparr>pkg_name = ''passport-jwt'', description = Some ''JWT'',
                         dist_tags = Some \<lparr>latest = Some ''4.0.0''\<rparr>\<rparr>]\<rparr>
      \<lparr>ctx_type = ''protocol'', ctx_name = ''Jwt'', symbolPath = ''protocols/Jwt'', rest = Map.empty,
       passportPackage = ''passport-jwt''\<rparr>
    = Inr (\<lparr>providersInfoService = adds new_ProvidersInfoService
         [(\<lparr>name = ''Controller'', value' = ''controller'', model = None, baseDir = None, owner = None\<rparr>,
             Some (Class 1 ''ControllerHook'')),
          (\<lparr>name = ''Protocol'', value' = ''protocol'', model = None, baseDir = None, owner = None\<rparr>,
             Some PassportGenerateHook)],
       projectPackageJson = \<lparr>dependencies = [(''passport-jwt'', Some ''4.0.0'')]\<rparr>,
       packages = Some [\<lparr>pkg_name = ''passport-jwt'', description = Some ''JWT'',
                         dist_tags = Some \<lparr>latest = Some ''4.0.0''\<rparr>\<rparr>]\<rparr>, [t]))"
proof -
  let ?pkgs = "[\<lparr>pkg_name = ''passport-jwt'', description = Some ''JWT'',
                 dist_tags = Some \<lparr>latest = Some ''4.0.0''\<rparr>\<rparr>]"
  let ?svc = "adds new_ProvidersInfoService
         [(\<lparr>name = ''Controller'', value' = ''controller'', model = None, baseDir = None, owner = None\<rparr>,
             Some (Class 1 ''ControllerHook'')),
          (\<lparr>name = ''Protocol'', value' = ''protocol'', model = None, baseDir = None, owner = None\<rparr>,
             Some PassportGenerateHook)]"
  let ?hook = "\<lparr>providersInfoService = ?svc, projectPackageJson = \<lparr>dependencies = []\<rparr>,
       packages = Some ?pkgs\<rparr>"
  have c: "get (providersInfoService ?hook) ''controller'' =
      Some \<lparr>name = ''Controller'', value' = ''controller'', model = None, baseDir = None,
            owner = Some ''ControllerHook''\<rparr>"
    by (simp add: get_def add_def new_ProvidersInfoService_def)
  have p: "get (providersInfoService ?hook) ''protocol'' =
      Some \<lparr>name = ''Protocol'', value' = ''protocol'', model = None, baseDir = None,
            owner = Some ''PassportGenerateHook''\<rparr>"
    by (simp add: get_def add_def new_ProvidersInfoService_def PassportGenerateHook_def)
  show ?thesis
    using onGenerateExec_dispatch [of ?hook
        "\<lparr>ctx_type = ''controller'', ctx_name = ''Jwt'', symbolPath = ''controllers/Jwt'', rest = Map.empty,
           passportPackage = ''passport-jwt''\<rparr>" _
        "\<lambda>s. if s = ''Jwt'' then ''jwt'' else s" "''templates''" ?pkgs] c
      onGenerateExec_dispatch [of ?hook
        "\<lparr>ctx_type = ''protocol'', ctx_name = ''Jwt'', symbolPath = ''protocols/Jwt'', rest = Map.empty,
           passportPackage = ''passport-jwt''\<rparr>" _
        "\<lambda>s. if s = ''Jwt'' then ''jwt'' else s" "''templates''" ?pkgs] p
    by (simp add: PassportGenerateHook_def addDependency_def)
qed

text \<open>
  The claim as it is stated fails twice. A hook that is new (the prompt phase has not
  run) owns "protocol" and \<open>onGenerateExec\<close> throws: no task, no dependency. And when
  another class of the name \<open>PassportGenerateHook\<close> has registered "protocol" last, the
  hook takes the context for its own: one task, one dependency.
\<close>

theorem onGenerateExec_owned_counterexample:
  "isMyProvider
      (providersInfoService (new_PassportGenerateHook new_ProvidersInfoService \<lparr>dependencies = []\<rparr>))
      ''protocol'' PassportGenerateHook = Inr True
   \<and> onGenerateExec (\<lambda>s. if s = ''Jwt'' then ''jwt'' else s) ''templates''
        (new_PassportGenerateHook new_ProvidersInfoService \<lparr>dependencies = []\<rparr>)
        \<lparr>ctx_type = ''protocol'', ctx_name = ''Jwt'', symbolPath = ''protocols/Jwt'', rest = Map.empty,
         passportPackage = ''passport-jwt''\<rparr>
      = Inl TypeError
   \<and> Class 7 ''PassportGenerateHook'' \<noteq> PassportGenerateHook
   \<and> last_add ''protocol''
        [(\<lparr>name = ''Protocol'', value' = ''protocol'', model = None, baseDir = None, owner = None\<rparr>,
           Some PassportGenerateHook),
         (\<lparr>name = ''Protocol'', value' = ''protocol'', model = None, baseDir = None, owner = None\<rparr>,
           Some (Class 7 ''PassportGenerateHook''))]
      = Some (\<lparr>name = ''Protocol'', value' = ''protocol'', model = None, baseDir = None, owner = None\<rparr>,
           Some (Class 7 ''PassportGenerateHook''))
   \<and> (\<exists>t. onGenerateExec (\<lambda>s. if s = ''Jwt'' then ''jwt'' else s) ''templates''
        \<lparr>providersInfoService = adds new_ProvidersInfoService
           [(\<lparr>name = ''Protocol'', value' = ''protocol'', model = None, baseDir = None, owner = None\<rparr>,
              Some PassportGenerateHook),
            (\<lparr>name = ''Protocol'', value' = ''protocol'', model = None, baseDir = None, owner = None\<rparr>,
              Some (Class 7 ''PassportGenerateHook''))],
         projectPackageJson = \<lparr>dependencies = []\<rparr>,
         packages = Some []\<rparr>
        \<lparr>ctx_type = ''protocol'', ctx_name = ''Jwt'', symbolPath = ''protocols/Jwt'', rest = Map.empty,
         passportPackage = ''passport-jwt''\<rparr>
      = Inr (\<lparr>providersInfoService = adds new_ProvidersInfoService
           [(\<lparr>name = ''Protocol'', value' = ''protocol'', model = None, baseDir = None, owner = None\<rparr>,
              Some PassportGenerateHook),
            (\<lparr>name = ''Protocol'', value' = ''protocol'', model = None, baseDir = None, owner = None\<rparr>,
              Some (Class 7 ''PassportGenerateHook''))],
         projectPackageJson = \<lparr>dependencies = [(''passport-jwt'', None)]\<rparr>,
         packages = Some []\<rparr>, [t]))"
  by (simp add: onGenerateExec_def isMyProvider_def new_PassportGenerateHook_def
      new_ProvidersInfoService_def add_def PassportGenerateHook_def last_add_def
      getPassportPackageVersion_def addDependency_def Let_def)

section \<open>The hook: the question of the prompt phase\<close>

text \<open>
  C6. When the packages are fetched, \<open>onGeneratePrompt\<close> returns one question, named
  \<open>passportPackage\<close>, whose \<open>when\<close> holds of a state exactly when the \<open>type\<close> of the state is
  "protocol"; for any other type the rendered form does not contain the question.
\<close>

theorem passportPackage_question_when:
  "\<exists>hook' q. onGeneratePrompt toLowerCase hook (Inr pkgs) initialOption = Inr (hook', [q])
     \<and> question_name q = ''passportPackage''
     \<and> (\<forall>state. when' q state = (state ''type'' = Some ''protocol''))
     \<and> (\<forall>state. rendered_form [q] state = (if state ''type'' = Some ''protocol'' then [q] else []))"
  by (simp add: onGeneratePrompt_def Let_def rendered_form_def)

theorem passportPackage_question_when_witness:
  "\<exists>hook' q.
     onGeneratePrompt (\<lambda>s. s)
       (new_PassportGenerateHook new_ProvidersInfoService \<lparr>dependencies = []\<rparr>)
       (Inr [\<lparr>pkg_name = ''passport-jwt'', description = Some ''JWT'', dist_tags = None\<rparr>]) ()
       = Inr (hook', [q])
     \<and> when' q [''type'' \<mapsto> ''protocol'']
     \<and> \<not> when' q [''type'' \<mapsto> ''controller'']
     \<and> \<not> when' q Map.empty
     \<and> rendered_form [q] [''type'' \<mapsto> ''controller''] = []
     \<and> rendered_form [q] [''type'' \<mapsto> ''protocol''] = [q]"
proof -
  from passportPackage_question_when
    [of "\<lambda>s. s" "new_PassportGenerateHook new_ProvidersInfoService \<lparr>dependencies = []\<rparr>"
      "[\<lparr>pkg_name = ''passport-jwt'', description = Some ''JWT'', dist_tags = None\<rparr>]" "()"]
  obtain hook' q where
    e: "onGeneratePrompt (\<lambda>s. s)
       (new_PassportGenerateHook new_ProvidersInfoService \<lparr>dependencies = []\<rparr>)
       (Inr [\<lparr>pkg_name = ''passport-jwt'', description = Some ''JWT'', dist_tags = None\<rparr>]) ()
       = Inr (hook', [q])"
    and w: "\<forall>state. when' q state = (state ''type'' = Some ''protocol'')"
    and r: "\<forall>state. rendered_form [q] state = (if state ''type'' = Some ''protocol'' then [q] else [])"
    by blast
  from w have "when' q [''type'' \<mapsto> ''protocol'']" "\<not> when' q [''type'' \<mapsto> ''controller'']"
    "\<not> when' q Map.empty"
    by simp_all
  moreover from r have "rendered_form [q] [''type'' \<mapsto> ''controller''] = []"
    "rendered_form [q] [''type'' \<mapsto> ''protocol''] = [q]"
    by simp_all
  ultimately show ?thesis using e by blast
qed



section \<open>The hook: the mapping of the context\<close>

text \<open>
  C8 (as amended). \<open>mapOptions\<close> drops no key of the context and keeps the value of every
  key other than \<open>protocolName\<close>, declared or not; and it sets \<open>protocolName\<close> to the
  \<open>paramCase\<close> of the \<open>name\<close> of the context, in place of a \<open>protocolName\<close> that the context
  already has. As objects, the mapped options are the context with \<open>protocolName\<close> set.
\<close>

theorem mapOptions_sets_protocolName:
  "mapped_properties (mapOptions paramCase ctx) =
     (properties ctx)(''protocolName'' \<mapsto> Str (paramCase (ctx_name ctx)))
   \<and> (\<forall>k. k \<noteq> ''protocolName'' \<longrightarrow> mapped_properties (mapOptions paramCase ctx) k = properties ctx k)
   \<and> dom (properties ctx) \<subseteq> dom (mapped_properties (mapOptions paramCase ctx))
   \<and> ctx_type (mapOptions paramCase ctx) = ctx_type ctx
   \<and> ctx_name (mapOptions paramCase ctx) = ctx_name ctx
   \<and> symbolPath (mapOptions paramCase ctx) = symbolPath ctx
   \<and> passportPackage (mapOptions paramCase ctx) = passportPackage ctx
   \<and> protocolName (mapOptions paramCase ctx) = paramCase (ctx_name ctx)"
proof -
  have e: "mapped_properties (mapOptions paramCase ctx) =
      (properties ctx)(''protocolName'' \<mapsto> Str (paramCase (ctx_name ctx)))"
    by (rule ext) (simp add: mapped_properties_def properties_def mapOptions_def)
  have k: "\<forall>k. k \<noteq> ''protocolName'' \<longrightarrow> mapped_properties (mapOptions paramCase ctx) k = properties ctx k"
    by (simp add: e)
  have d: "dom (properties ctx) \<subseteq> dom (mapped_properties (mapOptions paramCase ctx))"
    by (auto simp: e)
  from e k d show ?thesis
    by (simp add: mapOptions_def)
qed

text \<open>
  The round trip of the spec: the context of a "protocol" generation with the answer
  \<open>passportPackage\<close> and one undeclared property, \<open>route\<close>, keeps all of them and gains
  \<open>protocolName\<close>.
\<close>

theorem mapOptions_sets_protocolName_witness:
  "''route'' \<noteq> ''protocolName'' \<and> ''passportPackage'' \<noteq> ''protocolName'' \<and> ''type'' \<noteq> ''protocolName''
   \<and> mapped_properties (mapOptions (\<lambda>s. if s = ''Jwt'' then ''jwt'' else s)
        \<lparr>ctx_type = ''protocol'', ctx_name = ''Jwt'', symbolPath = ''protocols/Jwt'',
         rest = [''route'' \<mapsto> Str ''/rest''], passportPackage = ''p1''\<rparr>) ''route''
      = Some (Str ''/rest'' :: unit JSValue)
   \<and> mapped_properties (mapOptions (\<lambda>s. if s = ''Jwt'' then ''jwt'' else s)
        \<lparr>ctx_type = ''protocol'', ctx_name = ''Jwt'', symbolPath = ''protocols/Jwt'',
         rest = [''route'' \<mapsto> Str ''/rest''], passportPackage = ''p1''\<rparr>) ''passportPackage''
      = Some (Str ''p1'' :: unit JSValue)
   \<and> mapped_properties (mapOptions (\<lambda>s. if s = ''Jwt'' then ''jwt'' else s)
        \<lparr>ctx_type = ''protocol'', ctx_name = ''Jwt'', symbolPath = ''protocols/Jwt'',
         rest = [''route'' \<mapsto> Str ''/rest''], passportPackage = ''p1''\<rparr>) ''type''
      = Some (Str ''protocol'' :: unit JSValue)
   \<and> mapped_properties (mapOptions (\<lambda>s. if s = ''Jwt'' then ''jwt'' else s)
        \<lparr>ctx_type = ''protocol'', ctx_name = ''Jwt'', symbolPath = ''protocols/Jwt'',
         rest = [''route'' \<mapsto> Str ''/rest''], passportPackage = ''p1''\<rparr>) ''protocolName''
      = Some (Str ''jwt'' :: unit JSValue)"
  using mapOptions_sets_protocolName [of "\<lambda>s. if s = ''Jwt'' then ''jwt'' else s"
      "\<lparr>ctx_type = ''protocol'', ctx_name = ''Jwt'', symbolPath = ''protocols/Jwt'',
        rest = [''route'' \<mapsto> (Str ''/rest'' :: unit JSValue)], passportPackage = ''p1''\<rparr>"]
  by (simp add: properties_def)

text \<open>
  The claim as it is stated fails for a context that has a \<open>protocolName\<close> already: the
  pair of \<open>protocolName\<close> and "Custom" is a key/value pair of the context and not of the
  mapped options, where \<open>protocolName\<close> is "jwt".
\<close>

theorem mapOptions_overwrites_counterexample:
  "properties
      \<lparr>ctx_type = ''protocol'', ctx_name = ''Jwt'', symbolPath = ''protocols/Jwt'',
       rest = [''protocolName'' \<mapsto> Str ''Custom''], passportPackage = ''p1''\<rparr> ''protocolName''
    = Some (Str ''Custom'' :: unit JSValue)
   \<and> mapped_properties (mapOptions (\<lambda>s. if s = ''Jwt'' then ''jwt'' else s)
        \<lparr>ctx_type = ''protocol'', ctx_name = ''Jwt'', symbolPath = ''protocols/Jwt'',
         rest = [''protocolName'' \<mapsto> Str ''Custom''], passportPackage = ''p1''\<rparr>) ''protocolName''
      = Some (Str ''jwt'' :: unit JSValue)
   \<and> mapped_properties (mapOptions (\<lambda>s. if s = ''Jwt'' then ''jwt'' else s)
        \<lparr>ctx_type = ''protocol'', ctx_name = ''Jwt'', symbolPath = ''protocols/Jwt'',
         rest = [''protocolName'' \<mapsto> Str ''Custom''], passportPackage = ''p1''\<rparr>) ''protocolName''
      \<noteq> properties
        \<lparr>ctx_type = ''protocol'', ctx_name = ''Jwt'', symbolPath = ''protocols/Jwt'',
         rest = [''protocolName'' \<mapsto> (Str ''Custom'' :: unit JSValue)], passportPackage = ''p1''\<rparr>
        ''protocolName''"
  by (simp add: properties_def mapped_properties_def mapOptions_def)

section \<open>The hook: the cached packages\<close>

text \<open>
  C9. A new hook has no \<open>packages\<close>. While \<open>packages\<close> is \<open>undefined\<close>,
  \<open>getPassportPackageVersion\<close> throws a \<open>TypeError\<close>, and so does \<open>onGenerateExec\<close> for a
  context the hook owns. The prompt phase assigns the fetched list to \<open>packages\<close> (and
  throws, assigning nothing, when the fetch is rejected). Once \<open>packages\<close> is a list,
  \<open>getPassportPackageVersion\<close> returns the \<open>latest\<close> dist-tag of the first package of the
  given name, and \<open>undefined\<close> when no package of the list has that name; and the version
  that \<open>onGenerateExec\<close> records in the manifest for a context the hook owns is this result
  for the \<open>passportPackage\<close> of the context: the exec phase after the prompt phase records
  the version looked up in the list that the prompt phase fetched.
\<close>

theorem getPassportPackageVersion_cache:
  "packages (new_PassportGenerateHook svc pj) = None
   \<and> (packages hook = None \<longrightarrow> getPassportPackageVersion hook p = Inl TypeError)
   \<and> (packages hook = None \<longrightarrow>
        isMyProvider (providersInfoService hook) (ctx_type ctx) PassportGenerateHook = Inr True \<longrightarrow>
        onGenerateExec paramCase TEMPLATE_DIR hook ctx = Inl TypeError)
   \<and> (\<exists>questions. onGeneratePrompt toLowerCase hook (Inr pkgs) initialOption =
          Inr (hook\<lparr>packages := Some pkgs\<rparr>, questions))
   \<and> onGeneratePrompt toLowerCase hook (Inl e) initialOption = Inl e
   \<and> (packages hook = Some pkgs \<longrightarrow>
        getPassportPackageVersion hook p =
          Inr (case find (\<lambda>pkg. pkg_name pkg = p) pkgs of
                 None \<Rightarrow> None
               | Some details \<Rightarrow> (case dist_tags details of None \<Rightarrow> None | Some tags \<Rightarrow> latest tags)))
   \<and> (packages hook = Some pkgs \<longrightarrow> p \<notin> set (map pkg_name pkgs) \<longrightarrow>
        getPassportPackageVersion hook p = Inr None)
   \<and> (packages hook = Some pkgs \<longrightarrow>
        isMyProvider (providersInfoService hook) (ctx_type ctx) PassportGenerateHook = Inr True \<longrightarrow>
        (\<exists>t. onGenerateExec paramCase TEMPLATE_DIR hook ctx =
           Inr (hook\<lparr>projectPackageJson :=
                  \<lparr>dependencies = dependencies (projectPackageJson hook) @
                     [(passportPackage ctx,
                       case find (\<lambda>pkg. pkg_name pkg = passportPackage ctx) pkgs of
                         None \<Rightarrow> None
                       | Some details \<Rightarrow>
                           (case dist_tags details of None \<Rightarrow> None | Some tags \<Rightarrow> latest tags))]\<rparr>\<rparr>,
                [t])))
   \<and> (isMyProvider (providersInfoService hook) (ctx_type ctx) PassportGenerateHook = Inr True \<longrightarrow>
        (\<exists>questions t.
           onGeneratePrompt toLowerCase hook (Inr pkgs) initialOption =
             Inr (hook\<lparr>packages := Some pkgs\<rparr>, questions)
           \<and> onGenerateExec paramCase TEMPLATE_DIR (hook\<lparr>packages := Some pkgs\<rparr>) ctx =
               Inr (hook\<lparr>packages := Some pkgs,
                      projectPackageJson :=
                        \<lparr>dependencies = dependencies (projectPackageJson hook) @
                           [(passportPackage ctx,
                             case find (\<lambda>pkg. pkg_name pkg = passportPackage ctx) pkgs of
                               None \<Rightarrow> None
                             | Some details \<Rightarrow>
                                 (case dist_tags details of None \<Rightarrow> None | Some tags \<Rightarrow> latest tags))]\<rparr>\<rparr>,
                    [t])))"
proof (intro conjI impI)
  show "packages (new_PassportGenerateHook svc pj) = None"
    by (simp add: new_PassportGenerateHook_def)
next
  assume "packages hook = None"
  then show "getPassportPackageVersion hook p = Inl TypeError"
    by (rule getPassportPackageVersion_None)
next
  assume n: "packages hook = None"
    and m: "isMyProvider (providersInfoService hook) (ctx_type ctx) PassportGenerateHook = Inr True"
  show "onGenerateExec paramCase TEMPLATE_DIR hook ctx = Inl TypeError"
    by (simp add: onGenerateExec_mine [OF m] getPassportPackageVersion_None [OF n])
next
  show "\<exists>questions. onGeneratePrompt toLowerCase hook (Inr pkgs) initialOption =
          Inr (hook\<lparr>packages := Some pkgs\<rparr>, questions)"
    by (simp add: onGeneratePrompt_def Let_def)
next
  show "onGeneratePrompt toLowerCase hook (Inl e) initialOption = Inl e"
    by (simp add: onGeneratePrompt_def)
next
  assume "packages hook = Some pkgs"
  then show "getPassportPackageVersion hook p =
          Inr (case find (\<lambda>pkg. pkg_name pkg = p) pkgs of
                 None \<Rightarrow> None
               | Some details \<Rightarrow> (case dist_tags details of None \<Rightarrow> None | Some tags \<Rightarrow> latest tags))"
    by (rule getPassportPackageVersion_Some)
next
  assume s: "packages hook = Some pkgs" and a: "p \<notin> set (map pkg_name pkgs)"
  show "getPassportPackageVersion hook p = Inr None"
    by (simp add: getPassportPackageVersion_Some [OF s] find_None_names [OF a])
next
  assume s: "packages hook = Some pkgs"
    and m: "isMyProvider (providersInfoService hook) (ctx_type ctx) PassportGenerateHook = Inr True"
  show "\<exists>t. onGenerateExec paramCase TEMPLATE_DIR hook ctx =
           Inr (hook\<lparr>projectPackageJson :=
                  \<lparr>dependencies = dependencies (projectPackageJson hook) @
                     [(passportPackage ctx,
                       case find (\<lambda>pkg. pkg_name pkg = passportPackage ctx) pkgs of
                         None \<Rightarrow> None
                       | Some details \<Rightarrow>
                           (case dist_tags details of None \<Rightarrow> None | Some tags \<Rightarrow> latest tags))]\<rparr>\<rparr>,
                [t])"
    by (simp add: onGenerateExec_mine [OF m] getPassportPackageVersion_Some [OF s] addDependency_def)
next
  assume m: "isMyProvider (providersInfoService hook) (ctx_type ctx) PassportGenerateHook = Inr True"
  let ?hook = "hook\<lparr>packages := Some pkgs\<rparr>"
  have m': "isMyProvider (providersInfoService ?hook) (ctx_type ctx) PassportGenerateHook = Inr True"
    using m by simp
  have s: "packages ?hook = Some pkgs"
    by simp
  have p: "onGeneratePrompt toLowerCase hook (Inr pkgs) initialOption =
      Inr (?hook, snd (projr (onGeneratePrompt toLowerCase hook (Inr pkgs) initialOption)))"
    by (simp add: onGeneratePrompt_def Let_def)
  have x: "\<exists>t. onGenerateExec paramCase TEMPLATE_DIR ?hook ctx =
               Inr (hook\<lparr>packages := Some pkgs,
                      projectPackageJson :=
                        \<lparr>dependencies = dependencies (projectPackageJson hook) @
                           [(passportPackage ctx,
                             case find (\<lambda>pkg. pkg_name pkg = passportPackage ctx) pkgs of
                               None \<Rightarrow> None
                             | Some details \<Rightarrow>
                                 (case dist_tags details of None \<Rightarrow> None | Some tags \<Rightarrow> latest tags))]\<rparr>\<rparr>,
                    [t])"
    by (simp add: onGenerateExec_mine [OF m'] getPassportPackageVersion_Some [OF s] addDependency_def)
  from p x show "\<exists>questions t.
           onGeneratePrompt toLowerCase hook (Inr pkgs) initialOption =
             Inr (hook\<lparr>packages := Some pkgs\<rparr>, questions)
           \<and> onGenerateExec paramCase TEMPLATE_DIR (hook\<lparr>packages := Some pkgs\<rparr>) ctx =
               Inr (hook\<lparr>packages := Some pkgs,
                      projectPackageJson :=
                        \<lparr>dependencies = dependencies (projectPackageJson hook) @
                           [(passportPackage ctx,
                             case find (\<lambda>pkg. pkg_name pkg = passportPackage ctx) pkgs of
                               None \<Rightarrow> None
                             | Some details \<Rightarrow>
                                 (case dist_tags details of None \<Rightarrow> None | Some tags \<Rightarrow> latest tags))]\<rparr>\<rparr>,
                    [t])"
    by blast
qed

text \<open>
  An example: a new hook owns "protocol" and throws in the exec phase; after the prompt
  phase has fetched two packages, the versions are found in that list, and the exec
  phase records \<open>passport-jwt\<close> at the version 4.0.0 of the list.
\<close>

theorem getPassportPackageVersion_cache_witness:
  "packages (new_PassportGenerateHook new_ProvidersInfoService \<lparr>dependencies = []\<rparr>) = None
   \<and> isMyProvider
        (providersInfoService (new_PassportGenerateHook new_ProvidersInfoService \<lparr>dependencies = []\<rparr>))
        ''protocol'' PassportGenerateHook = Inr True
   \<and> getPassportPackageVersion
        (new_PassportGenerateHook new_ProvidersInfoService \<lparr>dependencies = []\<rparr>) ''passport-jwt''
      = Inl TypeError
   \<and> onGenerateExec (\<lambda>s. if s = ''Jwt'' then ''jwt'' else s) ''templates''
        (new_PassportGenerateHook new_ProvidersInfoService \<lparr>dependencies = []\<rparr>)
        \<lparr>ctx_type = ''protocol'', ctx_name = ''Jwt'', symbolPath = ''protocols/Jwt'',
         rest = Map.empty, passportPackage = ''passport-jwt''\<rparr>
      = (Inl TypeError :: error + PassportGenerateHook \<times> unit Task list)
   \<and> getPassportPackageVersion
        ((new_PassportGenerateHook new_ProvidersInfoService \<lparr>dependencies = []\<rparr>)
           \<lparr>packages := Some [\<lparr>pkg_name = ''passport-jwt'', description = Some ''JWT'',
                                dist_tags = Some \<lparr>latest = Some ''4.0.0''\<rparr>\<rparr>,
                              \<lparr>pkg_name = ''passport-local'', description = None,
                                dist_tags = None\<rparr>]\<rparr>) ''passport-jwt''
      = Inr (Some ''4.0.0'')
   \<and> getPassportPackageVersion
        ((new_PassportGenerateHook new_ProvidersInfoService \<lparr>dependencies = []\<rparr>)
           \<lparr>packages := Some [\<lparr>pkg_name = ''passport-jwt'', description = Some ''JWT'',
                                dist_tags = Some \<lparr>latest = Some ''4.0.0''\<rparr>\<rparr>,
                              \<lparr>pkg_name = ''passport-local'', description = None,
                                dist_tags = None\<rparr>]\<rparr>) ''passport-local''
      = Inr None
   \<and> getPassportPackageVersion
        ((new_PassportGenerateHook new_ProvidersInfoService \<lparr>dependencies = []\<rparr>)
           \<lparr>packages := Some [\<lparr>pkg_name = ''passport-jwt'', description = Some ''JWT'',
                                dist_tags = Some \<lparr>latest = Some ''4.0.0''\<rparr>\<rparr>,
                              \<lparr>pkg_name = ''passport-local'', description = None,
                                dist_tags = None\<rparr>]\<rparr>) ''passport-github''
      = Inr None
   \<and> (\<exists>questions t.
        onGeneratePrompt (\<lambda>s. s)
          (new_PassportGenerateHook new_ProvidersInfoService \<lparr>dependencies = []\<rparr>)
          (Inr [\<lparr>pkg_name = ''passport-jwt'', description = Some ''JWT'',
                  dist_tags = Some \<lparr>latest = Some ''4.0.0''\<rparr>\<rparr>,
                \<lparr>pkg_name = ''passport-local'', description = None, dist_tags = None\<rparr>]) ()
          = Inr ((new_PassportGenerateHook new_ProvidersInfoService \<lparr>dependencies = []\<rparr>)
                   \<lparr>packages := Some [\<lparr>pkg_name = ''passport-jwt'', description = Some ''JWT'',
                                        dist_tags = Some \<lparr>latest = Some ''4.0.0''\<rparr>\<rparr>,
                                      \<lparr>pkg_name = ''passport-local'', description = None,
                                        dist_tags = None\<rparr>]\<rparr>, questions)
        \<and> onGenerateExec (\<lambda>s. if s = ''Jwt'' then ''jwt'' else s) ''templates''
            ((new_PassportGenerateHook new_ProvidersInfoService \<lparr>dependencies = []\<rparr>)
               \<lparr>packages := Some [\<lparr>pkg_name = ''passport-jwt'', description = Some ''JWT'',
                                    dist_tags = Some \<lparr>latest = Some ''4.0.0''\<rparr>\<rparr>,
                                  \<lparr>pkg_name = ''passport-local'', description = None,
                                    dist_tags = None\<rparr>]\<rparr>)
            \<lparr>ctx_type = ''protocol'', ctx_name = ''Jwt'', symbolPath = ''protocols/Jwt'',
             rest = Map.empty, passportPackage = ''passport-jwt''\<rparr>
          = Inr ((new_PassportGenerateHook new_ProvidersInfoService \<lparr>dependencies = []\<rparr>)
                   \<lparr>packages := Some [\<lparr>pkg_name = ''passport-jwt'', description = Some ''JWT'',
                                        dist_tags = Some \<lparr>latest = Some ''4.0.0''\<rparr>\<rparr>,
                                      \<lparr>pkg_name = ''passport-local'', description = None,
                                        dist_tags = None\<rparr>],
                     projectPackageJson := \<lparr>dependencies = [(''passport-jwt'', Some ''4.0.0'')]\<rparr>\<rparr>,
                 [t :: unit Task]))"
proof -
  let ?new = "new_PassportGenerateHook new_ProvidersInfoService \<lparr>dependencies = []\<rparr>"
  let ?pkgs = "[\<lparr>pkg_name = ''passport-jwt'', description = Some ''JWT'',
                  dist_tags = Some \<lparr>latest = Some ''4.0.0''\<rparr>\<rparr>,
                \<lparr>pkg_name = ''passport-local'', description = None, dist_tags = None\<rparr>]"
  let ?ctx = "\<lparr>ctx_type = ''protocol'', ctx_name = ''Jwt'', symbolPath = ''protocols/Jwt'',
         rest = (Map.empty :: string \<rightharpoonup> unit JSValue), passportPackage = ''passport-jwt''\<rparr>"
  let ?pc = "\<lambda>s. if s = ''Jwt'' then ''jwt'' else s"
  have m: "isMyProvider (providersInfoService ?new) ''protocol'' PassportGenerateHook = Inr True"
    by (simp add: isMyProvider_def new_PassportGenerateHook_def new_ProvidersInfoService_def add_def
        PassportGenerateHook_def)
  have n: "packages ?new = None"
    by (simp add: new_PassportGenerateHook_def)
  have d: "dependencies (projectPackageJson ?new) = []"
    by (simp add: new_PassportGenerateHook_def)
  have s: "packages (?new\<lparr>packages := Some ?pkgs\<rparr>) = Some ?pkgs"
    by simp
  show ?thesis
    using m n d
      getPassportPackageVersion_cache [of new_ProvidersInfoService "\<lparr>dependencies = []\<rparr>" ?new
        "''passport-jwt''" ?ctx ?pc "''templates''" "\<lambda>s. s" ?pkgs "()" TypeError]
      getPassportPackageVersion_cache [of new_ProvidersInfoService "\<lparr>dependencies = []\<rparr>"
        "?new\<lparr>packages := Some ?pkgs\<rparr>" "''passport-jwt''" ?ctx ?pc "''templates''" "\<lambda>s. s" ?pkgs "()" TypeError]
      getPassportPackageVersion_cache [of new_ProvidersInfoService "\<lparr>dependencies = []\<rparr>"
        "?new\<lparr>packages := Some ?pkgs\<rparr>" "''passport-local''" ?ctx ?pc "''templates''" "\<lambda>s. s" ?pkgs "()" TypeError]
      getPassportPackageVersion_cache [of new_ProvidersInfoService "\<lparr>dependencies = []\<rparr>"
        "?new\<lparr>packages := Some ?pkgs\<rparr>" "''passport-github''" ?ctx ?pc "''templates''" "\<lambda>s. s" ?pkgs "()" TypeError]
    by simp
qed

section \<open>The hook: the template\<close>

text \<open>
  C10. \<open>getTemplate\<close> returns \<open><passportPackage>.protocol.hbs\<close> when \<open>templateExists\<close> holds of
  it, and \<open>generic.protocol.hbs\<close> otherwise. Every task of \<open>onGenerateExec\<close> renders the
  template \<open>getTemplate\<close> returns when the task runs: the generic one, or the one of the
  package, which then exists.
\<close>

theorem getTemplate_fallback:
  "getTemplate templateExists TEMPLATE_DIR p =
     (if templateExists (p @ ''.protocol.hbs'') TEMPLATE_DIR then p @ ''.protocol.hbs''
      else ''generic.protocol.hbs'')
   \<and> (onGenerateExec paramCase TEMPLATE_DIR hook ctx = Inr (hook', tasks) \<longrightarrow>
        (\<forall>t \<in> set tasks.
           template (task t templateExists) = getTemplate templateExists TEMPLATE_DIR (passportPackage ctx)
           \<and> (template (task t templateExists) = ''generic.protocol.hbs''
                \<or> template (task t templateExists) = passportPackage ctx @ ''.protocol.hbs''
                   \<and> templateExists (template (task t templateExists)) TEMPLATE_DIR)))"
proof (intro conjI impI ballI)
  show g: "getTemplate templateExists TEMPLATE_DIR p =
     (if templateExists (p @ ''.protocol.hbs'') TEMPLATE_DIR then p @ ''.protocol.hbs''
      else ''generic.protocol.hbs'')" for p
    by (simp add: getTemplate_def Let_def)
  fix t
  assume e: "onGenerateExec paramCase TEMPLATE_DIR hook ctx = Inr (hook', tasks)" and t: "t \<in> set tasks"
  from e t show r: "template (task t templateExists) =
      getTemplate templateExists TEMPLATE_DIR (passportPackage ctx)"
    by (auto simp: onGenerateExec_def Let_def split: sum.splits if_splits)
  show "template (task t templateExists) = ''generic.protocol.hbs''
      \<or> template (task t templateExists) = passportPackage ctx @ ''.protocol.hbs''
         \<and> templateExists (template (task t templateExists)) TEMPLATE_DIR"
    unfolding r by (simp add: g)
qed

theorem getTemplate_fallback_witness:
  "\<exists>hook' t.
     onGenerateExec (\<lambda>s. if s = ''Jwt'' then ''jwt'' else s) ''templates''
        \<lparr>providersInfoService =
           providersInfoService (new_PassportGenerateHook new_ProvidersInfoService \<lparr>dependencies = []\<rparr>),
         projectPackageJson = \<lparr>dependencies = []\<rparr>,
         packages = Some []\<rparr>
        \<lparr>ctx_type = ''protocol'', ctx_name = ''Jwt'', symbolPath = ''protocols/Jwt'', rest = Map.empty,
         passportPackage = ''passport-jwt''\<rparr>
       = Inr (hook', [t :: unit Task])
     \<and> template (task t (\<lambda>template' dir. template' = ''passport-jwt.protocol.hbs'')) = ''passport-jwt.protocol.hbs''
     \<and> template (task t (\<lambda>template' dir. False)) = ''generic.protocol.hbs''"
proof -
  let ?hook = "\<lparr>providersInfoService =
           providersInfoService (new_PassportGenerateHook new_ProvidersInfoService \<lparr>dependencies = []\<rparr>),
         projectPackageJson = \<lparr>dependencies = []\<rparr>,
         packages = Some []\<rparr>"
  let ?ctx = "\<lparr>ctx_type = ''protocol'', ctx_name = ''Jwt'', symbolPath = ''protocols/Jwt'',
         rest = (Map.empty :: string \<rightharpoonup> unit JSValue),
         passportPackage = ''passport-jwt''\<rparr>"
  have m: "isMyProvider (providersInfoService ?hook) (ctx_type ?ctx) PassportGenerateHook = Inr True"
    by (simp add: isMyProvider_def new_PassportGenerateHook_def new_ProvidersInfoService_def add_def
        PassportGenerateHook_def)
  obtain hook' t where e: "onGenerateExec (\<lambda>s. if s = ''Jwt'' then ''jwt'' else s) ''templates'' ?hook ?ctx = Inr (hook', [t])"
    by (simp add: onGenerateExec_mine [OF m] getPassportPackageVersion_def)
  have "template (task t (\<lambda>template' dir. template' = ''passport-jwt.protocol.hbs'')) = ''passport-jwt.protocol.hbs''"
    using e getTemplate_fallback [of "\<lambda>template' dir. template' = ''passport-jwt.protocol.hbs''"
        "''templates''" "''passport-jwt''" "\<lambda>s. if s = ''Jwt'' then ''jwt'' else s" ?hook ?ctx hook' "[t]"]
    by simp
  moreover have "template (task t (\<lambda>template' dir. False)) = ''generic.protocol.hbs''"
    using e getTemplate_fallback [of "\<lambda>template' dir. False"
        "''templates''" "''passport-jwt''" "\<lambda>s. if s = ''Jwt'' then ''jwt'' else s" ?hook ?ctx hook' "[t]"]
    by simp
  ultimately show ?thesis using e by blast
qed

end
